theory Spec2Isabelle
  imports Complex_Main
begin

section \<open>Double arithmetic\<close>

text \<open>
  Elevations, times, the tolerance and the forcing values are doubles. The notebooks
  subtract, add, divide and compare them, take absolute values and convert one of them
  to an integer. These operations are the interpreter's and the numerical library's,
  with their rounding, infinities and NaN; the embedding takes them as a parameter, so
  that every definition below computes what the code computes whatever the operations
  return. \<open>f_lit\<close> is the double a numeric literal denotes, \<open>f_gt\<close> and
  \<open>f_le\<close> are \<^verbatim>\<open>>\<close> and \<^verbatim>\<open><=\<close>, \<open>f_div\<close> is \<^verbatim>\<open>/\<close> and may
  raise, \<open>f_int\<close> is \<^verbatim>\<open>int(...)\<close> and may raise.
\<close>

datatype error = IndexError | ValueError | ZeroDivisionError | OverflowError | MemoryError

record 'f arith =
  f_lit :: "real \<Rightarrow> 'f"
  f_sub :: "'f \<Rightarrow> 'f \<Rightarrow> 'f"
  f_add :: "'f \<Rightarrow> 'f \<Rightarrow> 'f"
  f_abs :: "'f \<Rightarrow> 'f"
  f_le :: "'f \<Rightarrow> 'f \<Rightarrow> bool"
  f_gt :: "'f \<Rightarrow> 'f \<Rightarrow> bool"
  f_div :: "'f \<Rightarrow> 'f \<Rightarrow> error + 'f"
  f_int :: "'f \<Rightarrow> error + int"

section \<open>The steady-state output writer of the BasicVs notebook\<close>

text \<open>
  The notebook \<^verbatim>\<open>model_basicVs_steady_solution.ipynb\<close> defines one class,
  \<^verbatim>\<open>run_to_steady\<close>, whose method \<^verbatim>\<open>run_one_step\<close> is called by the
  landscape-evolution framework at its output steps. Node indices are natural numbers.
\<close>

text \<open>The parts of the framework's model object that the writer touches.\<close>

record 'f clock =
  stop :: 'f

record grid =
  core_nodes :: "nat list"

record 'f erosion_model =
  z :: "'f list"
  grid :: grid
  model_time :: 'f
  clock :: "'f clock"
  output_interval :: 'f

text \<open>
  The writer object. In the notebook \<^verbatim>\<open>self.model\<close> and the global
  \<^verbatim>\<open>model\<close> name the same object while the run is in progress, so the record
  holds the model once. \<open>stdout\<close> collects what \<^verbatim>\<open>print\<close> writes: one entry
  per steady-state message, holding the model time the message reports.
\<close>

record 'f run_to_steady =
  model :: "'f erosion_model"
  last_z :: "'f list"
  tolerance :: 'f
  stdout :: "'f list"

text \<open>The notebook cell \<^verbatim>\<open>tolerance = 20.0\<close>.\<close>

definition global_tolerance :: "'f arith \<Rightarrow> 'f" where
  "global_tolerance ops = f_lit ops 20"

text \<open>\<^verbatim>\<open>__init__\<close>: keep the model, copy its elevations, read the global tolerance.\<close>

definition init_run_to_steady :: "'f arith \<Rightarrow> 'f erosion_model \<Rightarrow> 'f list \<Rightarrow> 'f run_to_steady" where
  "init_run_to_steady ops m out =
     \<lparr>model = m, last_z = z m, tolerance = global_tolerance ops, stdout = out\<rparr>"

text \<open>
  \<^verbatim>\<open>a[nodes]\<close>: indexing an array by an array of node ids. An id beyond the end
  of the array raises IndexError.
\<close>

fun take_nodes :: "'f list \<Rightarrow> nat list \<Rightarrow> error + 'f list" where
  "take_nodes a [] = Inr []"
| "take_nodes a (i # ns) =
     (if i < length a
      then (case take_nodes a ns of Inl e \<Rightarrow> Inl e | Inr vs \<Rightarrow> Inr (a ! i # vs))
      else Inl IndexError)"

text \<open>
  The builtin \<^verbatim>\<open>max\<close> of a sequence: it keeps the first item and replaces it by
  each later item that compares greater. The empty sequence raises ValueError.
\<close>

definition keep_greater :: "'f arith \<Rightarrow> 'f \<Rightarrow> 'f \<Rightarrow> 'f" where
  "keep_greater ops m y = (if f_gt ops y m then y else m)"

definition py_max :: "'f arith \<Rightarrow> 'f list \<Rightarrow> error + 'f" where
  "py_max ops xs =
     (case xs of
        [] \<Rightarrow> Inl ValueError
      | x # r \<Rightarrow> Inr (foldl (keep_greater ops) x r))"

text \<open>
  \<^verbatim>\<open>run_one_step\<close>. Unless the model time is greater than zero nothing happens.
  Otherwise the saved elevations at the core nodes are subtracted from the current
  ones; if the largest absolute difference is within the tolerance the clock's stop
  time is set to the model time and the message is printed, otherwise the elevations
  are saved and the stop time is pushed back by one output interval when the model
  time leaves room for it.
\<close>

definition run_one_step :: "'f arith \<Rightarrow> 'f run_to_steady \<Rightarrow> error + 'f run_to_steady" where
  "run_one_step ops self =
     (let m = model self in
      if f_gt ops (model_time m) (f_lit ops 0) then
        (case take_nodes (z m) (core_nodes (grid m)) of
           Inl e \<Rightarrow> Inl e
         | Inr a \<Rightarrow>
        (case take_nodes (last_z self) (core_nodes (grid m)) of
           Inl e \<Rightarrow> Inl e
         | Inr b \<Rightarrow>
        (let diff = map2 (f_sub ops) a b in
         case py_max ops (map (f_abs ops) diff) of
           Inl e \<Rightarrow> Inl e
         | Inr d \<Rightarrow>
             if f_le ops d (tolerance self) then
               Inr (self\<lparr>model := m\<lparr>clock := (clock m)\<lparr>stop := model_time m\<rparr>\<rparr>,
                         stdout := stdout self @ [model_time m]\<rparr>)
             else
               (let self' = self\<lparr>last_z := z m\<rparr> in
                if f_le ops (model_time m) (f_sub ops (stop (clock m)) (output_interval m)) then
                  Inr (self'\<lparr>model :=
                         m\<lparr>clock := (clock m)\<lparr>stop :=
                               f_add ops (stop (clock m)) (output_interval m)\<rparr>\<rparr>\<rparr>)
                else Inr self'))))
      else Inr self)"

subsection \<open>What the check is compared with\<close>

text \<open>
  The absolute differences between two arrays at a list of nodes, as the code computes
  them: one double subtraction and one absolute value per node.
\<close>

definition abs_diffs :: "'f arith \<Rightarrow> nat list \<Rightarrow> 'f list \<Rightarrow> 'f list \<Rightarrow> 'f list" where
  "abs_diffs ops ns a b = map (\<lambda>i. f_abs ops (f_sub ops (a ! i) (b ! i))) ns"



text \<open>What an observer of the decision sees: the exception, or the output and the stop time.\<close>

definition decision :: "error + 'f run_to_steady \<Rightarrow> error + 'f list \<times> 'f" where
  "decision r = (case r of Inl e \<Rightarrow> Inl e
                 | Inr self' \<Rightarrow> Inr (stdout self', stop (clock (model self'))))"


section \<open>Calls into the modelling toolkit\<close>

text \<open>
  The Kudryavtsev notebook drives a model through library calls. The library is not
  part of the repository: it is a record of functions over a model state that the
  notebook never inspects. Every call the notebook makes on the model is appended to a
  log, with the variable name and value of a \<^verbatim>\<open>get_value\<close> or
  \<^verbatim>\<open>set_value\<close>.
\<close>

datatype 'f call =
    New
  | Setup
  | Initialize
  | Update
  | Get_value string 'f
  | Set_value string 'f
  | Attr string

text \<open>
  The toolkit's Ku component: \<open>Ku\<close> is a freshly constructed model
  (\<^verbatim>\<open>pymt.models.Ku()\<close>), \<open>setup_model\<close> (the method \<^verbatim>\<open>setup\<close>) takes
  keyword arguments, written as the literals of the source, and returns the
  configuration file and run folder; the attributes are functions of the model state.
  The value of a variable is a single double (the model is run at one location).
  Library calls are taken to return.
\<close>

record ('f, 'm) toolkit =
  Ku :: 'm
  setup_model :: "(string \<times> real) list \<Rightarrow> 'm \<Rightarrow> (string \<times> string) \<times> 'm"
  initialize :: "string \<times> string \<Rightarrow> 'm \<Rightarrow> 'm"
  update :: "'m \<Rightarrow> 'm"
  get_value :: "string \<Rightarrow> 'm \<Rightarrow> 'f"
  set_value :: "string \<Rightarrow> 'f \<Rightarrow> 'm \<Rightarrow> 'm"
  output_var_names :: "'m \<Rightarrow> string list"
  end_time :: "'m \<Rightarrow> 'f"
  time :: "'m \<Rightarrow> 'f"
  time_step :: "'m \<Rightarrow> 'f"

text \<open>The object bound to \<^verbatim>\<open>ku\<close> and the log of calls made so far.\<close>

type_synonym ('f, 'm) session = "'m \<times> 'f call list"

definition call_new :: "('f, 'm) toolkit \<Rightarrow> 'f call list \<Rightarrow> ('f, 'm) session" where
  "call_new lib cs = (Ku lib, cs @ [New])"

definition call_setup ::
  "('f, 'm) toolkit \<Rightarrow> (string \<times> real) list \<Rightarrow> ('f, 'm) session \<Rightarrow>
   (string \<times> string) \<times> ('f, 'm) session" where
  "call_setup lib kwargs s =
     (let (r, m) = setup_model lib kwargs (fst s) in (r, (m, snd s @ [Setup])))"

definition call_initialize ::
  "('f, 'm) toolkit \<Rightarrow> string \<times> string \<Rightarrow> ('f, 'm) session \<Rightarrow> ('f, 'm) session" where
  "call_initialize lib a s = (initialize lib a (fst s), snd s @ [Initialize])"

definition call_update :: "('f, 'm) toolkit \<Rightarrow> ('f, 'm) session \<Rightarrow> ('f, 'm) session" where
  "call_update lib s = (update lib (fst s), snd s @ [Update])"

definition call_get_value ::
  "('f, 'm) toolkit \<Rightarrow> string \<Rightarrow> ('f, 'm) session \<Rightarrow> 'f \<times> ('f, 'm) session" where
  "call_get_value lib name s =
     (let v = get_value lib name (fst s) in (v, (fst s, snd s @ [Get_value name v])))"

definition call_set_value ::
  "('f, 'm) toolkit \<Rightarrow> string \<Rightarrow> 'f \<Rightarrow> ('f, 'm) session \<Rightarrow> ('f, 'm) session" where
  "call_set_value lib name v s = (set_value lib name v (fst s), snd s @ [Set_value name v])"

definition read_attr :: "('m \<Rightarrow> 'a) \<Rightarrow> string \<Rightarrow> ('f, 'm) session \<Rightarrow> 'a \<times> ('f, 'm) session" where
  "read_attr f name s = (f (fst s), (fst s, snd s @ [Attr name]))"

section \<open>The Kudryavtsev notebook\<close>

text \<open>
  The cells of the notebook in \<^verbatim>\<open>src/notebooks/pymt/index.ipynb\<close>, run top to
  bottom. Values a cell only displays are dropped.
\<close>






text \<open>
  Part 4. The downloaded table has one row per year with the three forcing columns;
  the notebook takes each column as a series.
\<close>

record 'f row =
  atmosphere_bottom_air__temperature :: 'f
  atmosphere_bottom_air__temperature_amplitude :: 'f
  snowpack__depth :: 'f

text \<open>\<^verbatim>\<open>series.values[i]\<close> for \<open>i\<close> from a \<^verbatim>\<open>range\<close>: past the end raises IndexError.\<close>

definition values_at :: "'f list \<Rightarrow> nat \<Rightarrow> error + 'f" where
  "values_at xs i = (if i < length xs then Inr (xs ! i) else Inl IndexError)"

text \<open>
  \<^verbatim>\<open>int((end_time - time) / time_step)\<close>: the double difference, the double
  quotient, then the conversion; the division and the conversion may raise.
\<close>

definition n_steps_of :: "'f arith \<Rightarrow> 'f \<Rightarrow> 'f \<Rightarrow> 'f \<Rightarrow> error + int" where
  "n_steps_of ops e t dt =
     (case f_div ops (f_sub ops e t) dt of Inl err \<Rightarrow> Inl err | Inr q \<Rightarrow> f_int ops q)"

text \<open>
  \<^verbatim>\<open>np.empty(n)\<close>. The numerical library refuses a negative size with ValueError.
  It also refuses sizes it cannot hold, with ValueError when the size exceeds what an
  array dimension can be and with MemoryError when the memory is not there; which
  sizes these are is the library's and the machine's business, and a parameter here.
  Otherwise the array has \<open>n\<close> entries, none of them written: \<open>None\<close> stands for
  an entry that holds whatever the memory held.
\<close>

record numpy =
  too_large :: "nat \<Rightarrow> bool"
  no_memory :: "nat \<Rightarrow> bool"

definition np_empty :: "numpy \<Rightarrow> int \<Rightarrow> error + 'f option list" where
  "np_empty np n =
     (if n < 0 then Inl ValueError
      else if too_large np (nat n) then Inl ValueError
      else if no_memory np (nat n) then Inl MemoryError
      else Inr (replicate (nat n) None))"

text \<open>
  The body of the driver loop, for the indices still to run. An exception leaves the
  loop with the session as it stands.
\<close>

fun driver_loop ::
  "('f, 'm) toolkit \<Rightarrow> 'f list \<Rightarrow> 'f list \<Rightarrow> 'f list \<Rightarrow> nat list \<Rightarrow>
   ('f, 'm) session \<times> 'f option list \<Rightarrow>
   error \<times> ('f, 'm) session + ('f, 'm) session \<times> 'f option list" where
  "driver_loop lib maat tamp snow_depth [] st = Inr st"
| "driver_loop lib maat tamp snow_depth (i # r) (s, thickness) =
     (case values_at maat i of
        Inl e \<Rightarrow> Inl (e, s)
      | Inr a \<Rightarrow>
     (let s1 = call_set_value lib ''atmosphere_bottom_air__temperature'' a s in
      case values_at tamp i of
        Inl e \<Rightarrow> Inl (e, s1)
      | Inr b \<Rightarrow>
     (let s2 = call_set_value lib ''atmosphere_bottom_air__temperature_amplitude'' b s1 in
      case values_at snow_depth i of
        Inl e \<Rightarrow> Inl (e, s2)
      | Inr c \<Rightarrow>
     (let s3 = call_set_value lib ''snowpack__depth'' c s2;
          s4 = call_update lib s3;
          (v, s5) = call_get_value lib ''soil__active_layer_thickness'' s4
      in if i < length thickness
         then driver_loop lib maat tamp snow_depth r (s5, thickness[i := Some v])
         else Inl (IndexError, s5)))))"

text \<open>
  One pass of the loop body when none of the three reads fails: the value read back and
  the session after it.
\<close>

definition body_session ::
  "('f, 'm) toolkit \<Rightarrow> 'f list \<Rightarrow> 'f list \<Rightarrow> 'f list \<Rightarrow> nat \<Rightarrow> ('f, 'm) session \<Rightarrow>
   'f \<times> ('f, 'm) session" where
  "body_session lib maat tamp snow_depth i s =
     call_get_value lib ''soil__active_layer_thickness''
       (call_update lib
         (call_set_value lib ''snowpack__depth'' (snow_depth ! i)
           (call_set_value lib ''atmosphere_bottom_air__temperature_amplitude'' (tamp ! i)
             (call_set_value lib ''atmosphere_bottom_air__temperature'' (maat ! i) s))))"

text \<open>
  The cell with the loop: \<^verbatim>\<open>n_steps\<close> is computed once from the three attributes,
  \<^verbatim>\<open>thickness = np.empty(n_steps)\<close> is allocated, and the loop runs over
  \<^verbatim>\<open>range(n_steps)\<close>.
\<close>

definition driver_cell ::
  "'f arith \<Rightarrow> numpy \<Rightarrow> ('f, 'm) toolkit \<Rightarrow> 'f list \<Rightarrow> 'f list \<Rightarrow> 'f list \<Rightarrow>
   ('f, 'm) session \<Rightarrow> error \<times> ('f, 'm) session + ('f, 'm) session \<times> 'f option list" where
  "driver_cell ops np lib maat tamp snow_depth s =
     (let (e, s1) = read_attr (end_time lib) ''end_time'' s;
          (t, s2) = read_attr (time lib) ''time'' s1;
          (dt, s3) = read_attr (time_step lib) ''time_step'' s2
      in case n_steps_of ops e t dt of
           Inl err \<Rightarrow> Inl (err, s3)
         | Inr n_steps \<Rightarrow>
             (case np_empty np n_steps of
                Inl err \<Rightarrow> Inl (err, s3)
              | Inr thickness \<Rightarrow>
                  driver_loop lib maat tamp snow_depth [0..<nat n_steps] (s3, thickness)))"

text \<open>The cell before it: a new model, set up to end in 2050 and initialized.\<close>

definition part4_init :: "('f, 'm) toolkit \<Rightarrow> ('f, 'm) session \<Rightarrow> ('f, 'm) session" where
  "part4_init lib s =
     (let s1 = call_new lib (snd s);
          (args, s2) = call_setup lib [(''end_year'', 2050)] s1
      in call_initialize lib args s2)"

text \<open>Part 4 from the table on: the three series, the new model, the driver cell.\<close>

definition part4 ::
  "'f arith \<Rightarrow> numpy \<Rightarrow> ('f, 'm) toolkit \<Rightarrow> 'f row list \<Rightarrow> ('f, 'm) session \<Rightarrow>
   error \<times> ('f, 'm) session + ('f, 'm) session \<times> 'f option list" where
  "part4 ops np lib data s =
     (let maat = map atmosphere_bottom_air__temperature data;
          tamp = map atmosphere_bottom_air__temperature_amplitude data;
          snow_depth = map snowpack__depth data
      in driver_cell ops np lib maat tamp snow_depth (part4_init lib s))"



subsection \<open>What the driver loop is said to do\<close>

text \<open>
  One step as the claim describes it: the three forcing values of row \<open>i\<close> are
  set, in the order of the source, and the model is updated. \<open>after_steps n\<close> is the
  model after the steps \<open>0, ..., n - 1\<close>, and \<open>reading i\<close> is the thickness the
  model reports after step \<open>i\<close>.
\<close>

definition forced_step ::
  "('f, 'm) toolkit \<Rightarrow> 'f list \<Rightarrow> 'f list \<Rightarrow> 'f list \<Rightarrow> nat \<Rightarrow> 'm \<Rightarrow> 'm" where
  "forced_step lib maat tamp snow_depth i m =
     update lib
       (set_value lib ''snowpack__depth'' (snow_depth ! i)
         (set_value lib ''atmosphere_bottom_air__temperature_amplitude'' (tamp ! i)
           (set_value lib ''atmosphere_bottom_air__temperature'' (maat ! i) m)))"

definition after_steps ::
  "('f, 'm) toolkit \<Rightarrow> 'f list \<Rightarrow> 'f list \<Rightarrow> 'f list \<Rightarrow> nat \<Rightarrow> 'm \<Rightarrow> 'm" where
  "after_steps lib maat tamp snow_depth n m = fold (forced_step lib maat tamp snow_depth) [0..<n] m"

definition reading ::
  "('f, 'm) toolkit \<Rightarrow> 'f list \<Rightarrow> 'f list \<Rightarrow> 'f list \<Rightarrow> 'm \<Rightarrow> nat \<Rightarrow> 'f" where
  "reading lib maat tamp snow_depth m i =
     get_value lib ''soil__active_layer_thickness'' (after_steps lib maat tamp snow_depth (Suc i) m)"

text \<open>The calls of step \<open>i\<close>, with \<open>v\<close> the value read back.\<close>

definition step_calls :: "'f list \<Rightarrow> 'f list \<Rightarrow> 'f list \<Rightarrow> nat \<Rightarrow> 'f \<Rightarrow> 'f call list" where
  "step_calls maat tamp snow_depth i v =
     [Set_value ''atmosphere_bottom_air__temperature'' (maat ! i),
      Set_value ''atmosphere_bottom_air__temperature_amplitude'' (tamp ! i),
      Set_value ''snowpack__depth'' (snow_depth ! i),
      Update,
      Get_value ''soil__active_layer_thickness'' v]"

subsection \<open>The order of calls on the uniform interface\<close>




section \<open>Stand-ins for the interpreter and the libraries\<close>

text \<open>
  To evaluate the definitions on concrete inputs the parameters need values. The
  arithmetic stand-in computes exactly on the reals; on the numbers of the examples
  below (integers below \<open>2 ^ 64\<close>, eighths, and their differences and quotients by
  one) double arithmetic is exact too and gives the same results. The numerical
  library's stand-in refuses sizes from \<open>2 ^ 63\<close> on and has memory for every other
  size. The toolkit stand-in keeps the number of steps taken as its state, reports it
  as the time and as every variable, and ends at the time it is given.
\<close>

definition exact_arith :: "real arith" where
  "exact_arith =
     \<lparr>f_lit = (\<lambda>x. x),
      f_sub = (\<lambda>x y. x - y),
      f_add = (\<lambda>x y. x + y),
      f_abs = (\<lambda>x. \<bar>x\<bar>),
      f_le = (\<lambda>x y. x \<le> y),
      f_gt = (\<lambda>x y. x > y),
      f_div = (\<lambda>x y. if y = 0 then Inl ZeroDivisionError else Inr (x / y)),
      f_int = (\<lambda>x. Inr (if 0 \<le> x then \<lfloor>x\<rfloor> else \<lceil>x\<rceil>))\<rparr>"

definition numpy_64 :: numpy where
  "numpy_64 = \<lparr>too_large = (\<lambda>n. 2 ^ 63 \<le> n), no_memory = (\<lambda>n. False)\<rparr>"

definition counting_toolkit :: "real \<Rightarrow> (real, nat) toolkit" where
  "counting_toolkit e =
     \<lparr>Ku = 0,
      setup_model = (\<lambda>kwargs m. ((''ku.cfg'', ''run''), m)),
      initialize = (\<lambda>a m. 0),
      update = Suc,
      get_value = (\<lambda>name m. real m),
      set_value = (\<lambda>name v m. m),
      output_var_names = (\<lambda>m. [''soil__active_layer_thickness'']),
      end_time = (\<lambda>m. e),
      time = (\<lambda>m. real m),
      time_step = (\<lambda>m. 1)\<rparr>"

definition year :: "real \<Rightarrow> real row" where
  "year x =
     \<lparr>atmosphere_bottom_air__temperature = - x,
      atmosphere_bottom_air__temperature_amplitude = 2 * x,
      snowpack__depth = x / 8\<rparr>"

text \<open>
  A grid of three nodes with one core node, at the first output step of the notebook's
  clock.
\<close>

definition tiny_model :: "real list \<Rightarrow> real erosion_model" where
  "tiny_model elev =
     \<lparr>z = elev, grid = \<lparr>core_nodes = [1]\<rparr>, model_time = 10000,
      clock = \<lparr>stop = 10000000\<rparr>, output_interval = 10000\<rparr>"

definition tiny_writer :: "real list \<Rightarrow> real list \<Rightarrow> real run_to_steady" where
  "tiny_writer elev saved =
     \<lparr>model = tiny_model elev, last_z = saved, tolerance = global_tolerance exact_arith, stdout = []\<rparr>"


section \<open>The steady-state check\<close>

subsection \<open>Indexing and the maximum\<close>

lemma take_nodes_in_range:
  "\<forall>i\<in>set ns. i < length a \<Longrightarrow> take_nodes a ns = Inr (map ((!) a) ns)"
  by (induction ns) simp_all

lemma take_nodes_out_of_range:
  "\<exists>i\<in>set ns. \<not> i < length a \<Longrightarrow> take_nodes a ns = Inl IndexError"
  by (induction ns) (auto split: sum.splits)

lemma abs_diff_at_nodes:
  "map (f_abs ops) (map2 (f_sub ops) (map ((!) a) ns) (map ((!) b) ns)) = abs_diffs ops ns a b"
  unfolding abs_diffs_def by (induction ns) simp_all




lemma foldl_keep_greater_member: "foldl (keep_greater ops) x r \<in> insert x (set r)"
proof (induction r arbitrary: x)
  case Nil
  show ?case by simp
next
  case (Cons y r)
  have "keep_greater ops x y = x \<or> keep_greater ops x y = y"
    by (simp add: keep_greater_def)
  with Cons [of "keep_greater ops x y"] show ?case by auto
qed


lemma py_max_member:
  assumes "xs \<noteq> []"
  shows "\<exists>d. py_max ops xs = Inr d \<and> d \<in> set xs"
proof -
  from assms obtain x r where xs: "xs = x # r" by (cases xs) auto
  show ?thesis
    using foldl_keep_greater_member [of ops x r] by (simp add: py_max_def xs)
qed


text \<open>
  The call in closed form, at a model time greater than zero, with arrays that reach
  every core node, where \<open>d\<close> is what the builtin \<^verbatim>\<open>max\<close> returns.
\<close>

lemma run_one_step_checked:
  assumes t: "f_gt ops (model_time (model self)) (f_lit ops 0)"
    and rz: "\<forall>i\<in>set (core_nodes (grid (model self))). i < length (z (model self))"
    and rl: "\<forall>i\<in>set (core_nodes (grid (model self))). i < length (last_z self)"
    and d: "py_max ops (abs_diffs ops (core_nodes (grid (model self))) (z (model self)) (last_z self)) = Inr d"
  shows "run_one_step ops self =
     (let m = model self in
      if f_le ops d (tolerance self)
      then Inr (self\<lparr>model := m\<lparr>clock := (clock m)\<lparr>stop := model_time m\<rparr>\<rparr>,
                     stdout := stdout self @ [model_time m]\<rparr>)
      else if f_le ops (model_time m) (f_sub ops (stop (clock m)) (output_interval m))
      then Inr (self\<lparr>last_z := z m,
                     model := m\<lparr>clock := (clock m)\<lparr>stop :=
                                f_add ops (stop (clock m)) (output_interval m)\<rparr>\<rparr>\<rparr>)
      else Inr (self\<lparr>last_z := z m\<rparr>))"
  unfolding run_one_step_def Let_def take_nodes_in_range [OF rz] take_nodes_in_range [OF rl]
    sum.case abs_diff_at_nodes d
  using t by simp

text \<open>
  A step that is not steady, at a time that leaves room for one more output interval,
  pushes the stop time back by that interval and leaves the model time alone.
\<close>

lemma run_one_step_pushes_stop:
  assumes "f_gt ops (model_time (model self)) (f_lit ops 0)"
    and "\<forall>i\<in>set (core_nodes (grid (model self))). i < length (z (model self))"
    and "\<forall>i\<in>set (core_nodes (grid (model self))). i < length (last_z self)"
    and "py_max ops (abs_diffs ops (core_nodes (grid (model self))) (z (model self)) (last_z self)) = Inr d"
    and "\<not> f_le ops d (tolerance self)"
    and "f_le ops (model_time (model self))
           (f_sub ops (stop (clock (model self))) (output_interval (model self)))"
  shows "\<exists>self'. run_one_step ops self = Inr self' \<and>
           stop (clock (model self')) =
             f_add ops (stop (clock (model self))) (output_interval (model self)) \<and>
           model_time (model self') = model_time (model self) \<and>
           last_z self' = z (model self)"
  using assms(5,6) by (simp add: run_one_step_checked [OF assms(1-4)] Let_def)

lemma tolerance_init: "tolerance (init_run_to_steady ops m out) = global_tolerance ops"
  by (simp add: init_run_to_steady_def)

lemma run_one_step_keeps_tolerance:
  "run_one_step ops self = Inr self' \<Longrightarrow> tolerance self' = tolerance self"
  by (auto simp add: run_one_step_def Let_def split: if_splits sum.splits)

subsection \<open>When steady state is declared\<close>




subsection \<open>Only the core nodes matter\<close>

text \<open>
  Claim C7. Two writer states that agree on the model time, the clock, the output
  interval, the grid, the tolerance and the output so far, and whose current and saved
  elevation arrays agree once restricted to the core nodes, get the same decision from
  \<^verbatim>\<open>run_one_step\<close>: the same exception, or the same printed output and the same
  stop time. Elevations at the other nodes are free to differ.
\<close>

theorem decision_depends_on_core_nodes:
  assumes "model_time (model a) = model_time (model b)"
    and "clock (model a) = clock (model b)"
    and "output_interval (model a) = output_interval (model b)"
    and "grid (model a) = grid (model b)"
    and "tolerance a = tolerance b"
    and "stdout a = stdout b"
    and "take_nodes (z (model a)) (core_nodes (grid (model a))) =
         take_nodes (z (model b)) (core_nodes (grid (model b)))"
    and "take_nodes (last_z a) (core_nodes (grid (model a))) =
         take_nodes (last_z b) (core_nodes (grid (model b)))"
  shows "decision (run_one_step ops a) = decision (run_one_step ops b)"
  using assms
  by (simp add: run_one_step_def decision_def Let_def split: sum.splits)

text \<open>
  Two states of the three-node grid that differ at both boundary nodes, in the current
  and in the saved array, and agree at the core node.
\<close>

theorem decision_depends_on_core_nodes_witness:
  "z (model (tiny_writer [100, 1, 0] [0, 0, 0])) \<noteq> z (model (tiny_writer [-50, 1, 7] [3, 0, 900])) \<and>
   last_z (tiny_writer [100, 1, 0] [0, 0, 0]) \<noteq> last_z (tiny_writer [-50, 1, 7] [3, 0, 900]) \<and>
   decision (run_one_step exact_arith (tiny_writer [100, 1, 0] [0, 0, 0])) =
   decision (run_one_step exact_arith (tiny_writer [-50, 1, 7] [3, 0, 900]))"
proof -
  have "decision (run_one_step exact_arith (tiny_writer [100, 1, 0] [0, 0, 0])) =
        decision (run_one_step exact_arith (tiny_writer [-50, 1, 7] [3, 0, 900]))"
    by (rule decision_depends_on_core_nodes) (simp_all add: tiny_writer_def tiny_model_def)
  moreover have "z (model (tiny_writer [100, 1, 0] [0, 0, 0])) \<noteq>
                 z (model (tiny_writer [-50, 1, 7] [3, 0, 900]))"
    by (simp add: tiny_writer_def tiny_model_def)
  moreover have "last_z (tiny_writer [100, 1, 0] [0, 0, 0]) \<noteq>
                 last_z (tiny_writer [-50, 1, 7] [3, 0, 900])"
    by (simp add: tiny_writer_def)
  ultimately show ?thesis by blast
qed

section \<open>The driver loop of the Kudryavtsev notebook\<close>

subsection \<open>The log of calls and the model\<close>

lemma calls_call_set_value [simp]:
  "snd (call_set_value lib name v s) = snd s @ [Set_value name v]"
  by (simp add: call_set_value_def)

lemma calls_call_update [simp]: "snd (call_update lib s) = snd s @ [Update]"
  by (simp add: call_update_def)

lemma calls_call_initialize [simp]: "snd (call_initialize lib a s) = snd s @ [Initialize]"
  by (simp add: call_initialize_def)

lemma calls_call_new [simp]: "snd (call_new lib cs) = cs @ [New]"
  by (simp add: call_new_def)

lemma calls_call_setup [simp]: "snd (snd (call_setup lib kwargs s)) = snd s @ [Setup]"
  by (simp add: call_setup_def split: prod.splits)

lemma calls_call_get_value [simp]:
  "snd (snd (call_get_value lib name s)) = snd s @ [Get_value name (fst (call_get_value lib name s))]"
  by (simp add: call_get_value_def Let_def)

lemma calls_read_attr [simp]: "snd (snd (read_attr f name s)) = snd s @ [Attr name]"
  by (simp add: read_attr_def)

lemma fst_read_attr [simp]: "fst (read_attr f name s) = f (fst s)"
  by (simp add: read_attr_def)

lemma model_read_attr [simp]: "fst (snd (read_attr f name s)) = fst s"
  by (simp add: read_attr_def)

lemma calls_body_session:
  "snd (snd (body_session lib maat tamp snow_depth i s)) =
     snd s @ step_calls maat tamp snow_depth i (fst (body_session lib maat tamp snow_depth i s))"
  by (simp add: body_session_def step_calls_def)

lemma model_body_session:
  "fst (snd (body_session lib maat tamp snow_depth i s)) =
     forced_step lib maat tamp snow_depth i (fst s)"
  by (simp add: body_session_def forced_step_def call_get_value_def call_update_def
      call_set_value_def Let_def)

lemma value_body_session:
  "fst (body_session lib maat tamp snow_depth i s) =
     get_value lib ''soil__active_layer_thickness'' (forced_step lib maat tamp snow_depth i (fst s))"
  by (simp add: body_session_def forced_step_def call_get_value_def call_update_def
      call_set_value_def Let_def)

lemma after_steps_Suc:
  "after_steps lib maat tamp snow_depth (Suc n) m =
     forced_step lib maat tamp snow_depth n (after_steps lib maat tamp snow_depth n m)"
  by (simp add: after_steps_def)

lemma driver_loop_in_range:
  assumes "i < length maat" "i < length tamp" "i < length snow_depth" "i < length thickness"
  shows "driver_loop lib maat tamp snow_depth (i # r) (s, thickness) =
     driver_loop lib maat tamp snow_depth r
       (snd (body_session lib maat tamp snow_depth i s),
        thickness[i := Some (fst (body_session lib maat tamp snow_depth i s))])"
  using assms by (simp add: values_at_def body_session_def Let_def split: prod.splits)

lemma driver_loop_out_of_range:
  assumes "\<not> (i < length maat \<and> i < length tamp \<and> i < length snow_depth)"
  shows "\<exists>s'. driver_loop lib maat tamp snow_depth (i # r) (s, thickness) = Inl (IndexError, s')"
  using assms by (auto simp add: values_at_def Let_def split: prod.splits)

lemma driver_loop_index_error:
  assumes "\<forall>i\<in>set ns. i < length thickness"
  shows "(\<exists>s'. driver_loop lib maat tamp snow_depth ns (s, thickness) = Inl (IndexError, s')) \<longleftrightarrow>
         (\<exists>i\<in>set ns. \<not> (i < length maat \<and> i < length tamp \<and> i < length snow_depth))"
  using assms
proof (induction ns arbitrary: s thickness)
  case Nil
  then show ?case by simp
next
  case (Cons i r)
  show ?case
  proof (cases "i < length maat \<and> i < length tamp \<and> i < length snow_depth")
    case False
    from driver_loop_out_of_range [OF False, of lib r s thickness] False
    show ?thesis by auto
  next
    case True
    let ?b = "body_session lib maat tamp snow_depth i s"
    have step: "driver_loop lib maat tamp snow_depth (i # r) (s, thickness) =
        driver_loop lib maat tamp snow_depth r (snd ?b, thickness[i := Some (fst ?b)])"
      using True Cons.prems by (simp only: driver_loop_in_range list.set insert_iff ball_simps)
    have "\<forall>j\<in>set r. j < length (thickness[i := Some (fst ?b)])"
      using Cons.prems by simp
    from Cons.IH [OF this, of "snd ?b"] True show ?thesis
      by (simp only: step) auto
  qed
qed

subsection \<open>The loop\<close>

text \<open>
  The loop over the steps \<open>j, ..., n - 1\<close>, started from the model after the steps
  before \<open>j\<close>, with every read in range.
\<close>

lemma driver_loop_from:
  assumes "j \<le> n" "n \<le> length maat" "n \<le> length tamp" "n \<le> length snow_depth"
    and "n \<le> length thickness"
    and "fst s = after_steps lib maat tamp snow_depth j m"
  shows "driver_loop lib maat tamp snow_depth [j..<n] (s, thickness) =
     Inr ((after_steps lib maat tamp snow_depth n m,
           snd s @ concat (map (\<lambda>i. step_calls maat tamp snow_depth i
                                       (reading lib maat tamp snow_depth m i)) [j..<n])),
          map (\<lambda>i. if j \<le> i \<and> i < n then Some (reading lib maat tamp snow_depth m i)
                    else thickness ! i) [0..<length thickness])"
  using assms
proof (induction "n - j" arbitrary: j s thickness)
  case 0
  then have "j = n" by simp
  moreover have "map (\<lambda>i. if n \<le> i \<and> i < n then Some (reading lib maat tamp snow_depth m i)
                    else thickness ! i) [0..<length thickness] = thickness"
    by (rule nth_equalityI) auto
  ultimately show ?case
    using "0.prems"(6) by (simp add: prod_eq_iff)
next
  case (Suc k)
  then have lt: "j < n" by simp
  let ?b = "body_session lib maat tamp snow_depth j s"
  let ?th = "thickness[j := Some (fst ?b)]"
  have v: "fst ?b = reading lib maat tamp snow_depth m j"
    by (simp add: value_body_session reading_def after_steps_Suc Suc.prems(6))
  have m': "fst (snd ?b) = after_steps lib maat tamp snow_depth (Suc j) m"
    by (simp add: model_body_session after_steps_Suc Suc.prems(6))
  have step: "driver_loop lib maat tamp snow_depth [j..<n] (s, thickness) =
      driver_loop lib maat tamp snow_depth [Suc j..<n] (snd ?b, ?th)"
    using lt Suc.prems(2-5) by (simp add: upt_conv_Cons driver_loop_in_range del: driver_loop.simps)
  have k: "k = n - Suc j" using Suc.hyps(2) by simp
  have ih: "driver_loop lib maat tamp snow_depth [Suc j..<n] (snd ?b, ?th) =
     Inr ((after_steps lib maat tamp snow_depth n m,
           snd (snd ?b) @ concat (map (\<lambda>i. step_calls maat tamp snow_depth i
                                       (reading lib maat tamp snow_depth m i)) [Suc j..<n])),
          map (\<lambda>i. if Suc j \<le> i \<and> i < n then Some (reading lib maat tamp snow_depth m i)
                    else ?th ! i) [0..<length ?th])"
    using lt Suc.prems(2-5) by (intro Suc.hyps(1) [OF k _ _ _ _ _ m']) simp_all
  have calls: "snd (snd ?b) @ concat (map (\<lambda>i. step_calls maat tamp snow_depth i
                                       (reading lib maat tamp snow_depth m i)) [Suc j..<n]) =
      snd s @ concat (map (\<lambda>i. step_calls maat tamp snow_depth i
                                       (reading lib maat tamp snow_depth m i)) [j..<n])"
    using lt by (simp add: calls_body_session v upt_conv_Cons)
  have th: "map (\<lambda>i. if Suc j \<le> i \<and> i < n then Some (reading lib maat tamp snow_depth m i)
                    else ?th ! i) [0..<length ?th] =
      map (\<lambda>i. if j \<le> i \<and> i < n then Some (reading lib maat tamp snow_depth m i)
                    else thickness ! i) [0..<length thickness]"
    using lt Suc.prems(5) by (auto simp add: v nth_list_update)
  show ?case
    by (simp only: step ih calls th)
qed

lemma count_step_calls:
  "count_list (concat (map (\<lambda>i. step_calls maat tamp snow_depth i (v i)) ns)) Update = length ns"
  by (induction ns) (simp_all add: step_calls_def)

lemma driver_cell_unfold:
  "driver_cell ops np lib maat tamp snow_depth s =
     (case n_steps_of ops (end_time lib (fst s)) (time lib (fst s)) (time_step lib (fst s)) of
        Inl err \<Rightarrow> Inl (err, (fst s, snd s @ [Attr ''end_time'', Attr ''time'', Attr ''time_step'']))
      | Inr n_steps \<Rightarrow>
          (case np_empty np n_steps of
             Inl err \<Rightarrow>
               Inl (err, (fst s, snd s @ [Attr ''end_time'', Attr ''time'', Attr ''time_step'']))
           | Inr thickness \<Rightarrow>
               driver_loop lib maat tamp snow_depth [0..<nat n_steps]
                 ((fst s, snd s @ [Attr ''end_time'', Attr ''time'', Attr ''time_step'']),
                  thickness)))"
  by (simp add: driver_cell_def read_attr_def split: sum.splits)

lemma np_empty_Inr:
  "np_empty np n = Inr thickness \<longleftrightarrow>
     0 \<le> n \<and> \<not> too_large np (nat n) \<and> \<not> no_memory np (nat n) \<and>
     thickness = replicate (nat n) None"
  by (auto simp add: np_empty_def)

lemma np_empty_Inl:
  "(\<exists>e. np_empty np n = Inl e) \<longleftrightarrow> n < 0 \<or> too_large np (nat n) \<or> no_memory np (nat n)"
  by (auto simp add: np_empty_def)

lemma np_empty_not_IndexError: "np_empty np n \<noteq> Inl IndexError"
  by (simp add: np_empty_def)

text \<open>
  Claim C10, as amended. Let \<^verbatim>\<open>n_steps\<close>, evaluated once from the model as it
  stands before the loop, be \<open>n \<ge> 0\<close>, let \<^verbatim>\<open>np.empty\<close> hold an array of that
  size, and let each of the three series have at least \<open>n\<close> rows. Then the driver
  cell completes. The model it leaves is the model after \<open>n\<close> steps, each of which
  sets the three forcing values of its row and then updates; the calls it made are the
  three attribute reads followed, for each \<open>i\<close> from 0 to \<open>n - 1\<close> in turn, by
  the three \<^verbatim>\<open>set_value\<close> calls, one \<^verbatim>\<open>update\<close> and one
  \<^verbatim>\<open>get_value\<close>, so \<^verbatim>\<open>update\<close> is called exactly \<open>n\<close> times; and entry
  \<open>i\<close> of the thickness array is the thickness the model reports after step
  \<open>i\<close>.
\<close>

theorem driver_cell_updates_n_steps:
  fixes maat :: "'f list"
  assumes "n_steps_of ops (end_time lib (fst s)) (time lib (fst s)) (time_step lib (fst s)) = Inr (int n)"
    and "\<not> too_large np n" "\<not> no_memory np n"
    and "n \<le> length maat" "n \<le> length tamp" "n \<le> length snow_depth"
  shows "driver_cell ops np lib maat tamp snow_depth s =
     Inr ((after_steps lib maat tamp snow_depth n (fst s),
           snd s @ [Attr ''end_time'', Attr ''time'', Attr ''time_step''] @
             concat (map (\<lambda>i. step_calls maat tamp snow_depth i
                                 (reading lib maat tamp snow_depth (fst s) i)) [0..<n])),
          map (\<lambda>i. Some (reading lib maat tamp snow_depth (fst s) i)) [0..<n]) \<and>
     count_list (concat (map (\<lambda>i. step_calls maat tamp snow_depth i
                                 (reading lib maat tamp snow_depth (fst s) i)) [0..<n])) Update = n"
proof -
  let ?s3 = "(fst s, snd s @ [Attr ''end_time'', Attr ''time'', Attr ''time_step''])"
  let ?th = "replicate n (None :: 'f option)"
  have alloc: "np_empty np (int n) = Inr ?th"
    using assms(2,3) by (simp add: np_empty_def)
  have start: "fst ?s3 = after_steps lib maat tamp snow_depth 0 (fst s)"
    by (simp add: after_steps_def)
  have "driver_loop lib maat tamp snow_depth [0..<n] (?s3, ?th) =
     Inr ((after_steps lib maat tamp snow_depth n (fst s),
           snd ?s3 @ concat (map (\<lambda>i. step_calls maat tamp snow_depth i
                                       (reading lib maat tamp snow_depth (fst s) i)) [0..<n])),
          map (\<lambda>i. if 0 \<le> i \<and> i < n then Some (reading lib maat tamp snow_depth (fst s) i)
                    else ?th ! i) [0..<length ?th])"
    using assms(4-6) by (intro driver_loop_from [OF _ _ _ _ _ start]) simp_all
  moreover have "map (\<lambda>i. if 0 \<le> i \<and> i < n then Some (reading lib maat tamp snow_depth (fst s) i)
                    else ?th ! i) [0..<length ?th] =
      map (\<lambda>i. Some (reading lib maat tamp snow_depth (fst s) i)) [0..<n]"
    by simp
  ultimately show ?thesis
    by (simp add: driver_cell_unfold assms(1) alloc count_step_calls)
qed

subsection \<open>The cell on the stand-ins\<close>

lemmas toolkit_calls =
  call_new_def call_setup_def call_initialize_def call_update_def call_get_value_def
  call_set_value_def read_attr_def

lemma n_steps_counting:
  "n_steps_of exact_arith (end_time (counting_toolkit 3) (fst (0 :: nat, [] :: real call list)))
     (time (counting_toolkit 3) (fst (0 :: nat, [] :: real call list)))
     (time_step (counting_toolkit 3) (fst (0 :: nat, [] :: real call list))) = Inr (int 3)"
  by (simp add: n_steps_of_def exact_arith_def counting_toolkit_def)

lemma part4_init_counting:
  "n_steps_of exact_arith (end_time (counting_toolkit 3) (fst (part4_init (counting_toolkit 3) (0, []))))
              (time (counting_toolkit 3) (fst (part4_init (counting_toolkit 3) (0, []))))
              (time_step (counting_toolkit 3) (fst (part4_init (counting_toolkit 3) (0, [])))) = Inr 3"
  by (simp add: part4_init_def toolkit_calls counting_toolkit_def n_steps_of_def exact_arith_def)

lemma upt3: "[0..<3] = [0, 1, 2]"
  by (simp add: upt_rec eval_nat_numeral)

lemma rep3: "replicate 3 None = [None, None, None]"
  by (simp add: eval_nat_numeral)

lemma driver_cell_two_rows: "driver_cell exact_arith numpy_64 (counting_toolkit 3) [1, 2] [4, 5] [7, 8] (0, []) =
     Inl (IndexError,
          (2, [Attr ''end_time'', Attr ''time'', Attr ''time_step'',
           Set_value ''atmosphere_bottom_air__temperature'' 1,
           Set_value ''atmosphere_bottom_air__temperature_amplitude'' 4,
           Set_value ''snowpack__depth'' 7, Update,
           Get_value ''soil__active_layer_thickness'' 1,
           Set_value ''atmosphere_bottom_air__temperature'' 2,
           Set_value ''atmosphere_bottom_air__temperature_amplitude'' 5,
           Set_value ''snowpack__depth'' 8, Update,
           Get_value ''soil__active_layer_thickness'' 2]))"
  by (simp add: driver_cell_def toolkit_calls counting_toolkit_def numpy_64_def np_empty_def
      n_steps_of_def exact_arith_def values_at_def upt3 rep3)

text \<open>The counting toolkit ending at time three, on three rows: three steps.\<close>

theorem driver_cell_updates_n_steps_witness:
  "n_steps_of exact_arith (end_time (counting_toolkit 3) (fst (0 :: nat, [] :: real call list)))
     (time (counting_toolkit 3) (fst (0 :: nat, [] :: real call list)))
     (time_step (counting_toolkit 3) (fst (0 :: nat, [] :: real call list))) = Inr (int 3) \<and>
   \<not> too_large numpy_64 3 \<and> \<not> no_memory numpy_64 3 \<and>
   driver_cell exact_arith numpy_64 (counting_toolkit 3) [1, 2, 3] [4, 5, 6] [7, 8, 9] (0, []) =
     Inr ((3, [Attr ''end_time'', Attr ''time'', Attr ''time_step'',
           Set_value ''atmosphere_bottom_air__temperature'' 1,
           Set_value ''atmosphere_bottom_air__temperature_amplitude'' 4,
           Set_value ''snowpack__depth'' 7, Update,
           Get_value ''soil__active_layer_thickness'' 1,
           Set_value ''atmosphere_bottom_air__temperature'' 2,
           Set_value ''atmosphere_bottom_air__temperature_amplitude'' 5,
           Set_value ''snowpack__depth'' 8, Update,
           Get_value ''soil__active_layer_thickness'' 2,
           Set_value ''atmosphere_bottom_air__temperature'' 3,
           Set_value ''atmosphere_bottom_air__temperature_amplitude'' 6,
           Set_value ''snowpack__depth'' 9, Update,
           Get_value ''soil__active_layer_thickness'' 3]),
      [Some 1, Some 2, Some 3])"
proof -
  have a: "\<not> too_large numpy_64 3" and b: "\<not> no_memory numpy_64 3"
    by (simp_all add: numpy_64_def)
  have after: "after_steps (counting_toolkit 3) [1, 2, 3] [4, 5, 6] [7, 8, 9] k 0 = k" for k
    by (induction k) (simp_all add: after_steps_def forced_step_def counting_toolkit_def)
  have rd: "reading (counting_toolkit 3) [1, 2, 3] [4, 5, 6] [7, 8, 9] 0 i = real (Suc i)" for i
    by (simp add: reading_def after) (simp add: counting_toolkit_def)
  from driver_cell_updates_n_steps
         [OF n_steps_counting a b, of "[1, 2, 3]" "[4, 5, 6]" "[7, 8, 9]"]
  have "driver_cell exact_arith numpy_64 (counting_toolkit 3) [1, 2, 3] [4, 5, 6] [7, 8, 9] (0, []) =
     Inr ((3, [Attr ''end_time'', Attr ''time'', Attr ''time_step'',
           Set_value ''atmosphere_bottom_air__temperature'' 1,
           Set_value ''atmosphere_bottom_air__temperature_amplitude'' 4,
           Set_value ''snowpack__depth'' 7, Update,
           Get_value ''soil__active_layer_thickness'' 1,
           Set_value ''atmosphere_bottom_air__temperature'' 2,
           Set_value ''atmosphere_bottom_air__temperature_amplitude'' 5,
           Set_value ''snowpack__depth'' 8, Update,
           Get_value ''soil__active_layer_thickness'' 2,
           Set_value ''atmosphere_bottom_air__temperature'' 3,
           Set_value ''atmosphere_bottom_air__temperature_amplitude'' 6,
           Set_value ''snowpack__depth'' 9, Update,
           Get_value ''soil__active_layer_thickness'' 3]),
      [Some 1, Some 2, Some 3])"
    by (simp add: after rd step_calls_def upt_rec eval_nat_numeral)
  with n_steps_counting a b show ?thesis by blast
qed

text \<open>
  Claim C10 as stated has the loop call \<^verbatim>\<open>update\<close> exactly \<^verbatim>\<open>n_steps\<close> times.
  With \<^verbatim>\<open>n_steps = 3\<close> and series of two rows the third pass raises IndexError at
  its first read, and \<^verbatim>\<open>update\<close> has been called twice.
\<close>

theorem fewer_rows_counterexample:
  "n_steps_of exact_arith (end_time (counting_toolkit 3) (fst (0 :: nat, [] :: real call list)))
     (time (counting_toolkit 3) (fst (0 :: nat, [] :: real call list)))
     (time_step (counting_toolkit 3) (fst (0 :: nat, [] :: real call list))) = Inr 3 \<and>
   driver_cell exact_arith numpy_64 (counting_toolkit 3) [1, 2] [4, 5] [7, 8] (0, []) =
     Inl (IndexError,
          (2, [Attr ''end_time'', Attr ''time'', Attr ''time_step'',
           Set_value ''atmosphere_bottom_air__temperature'' 1,
           Set_value ''atmosphere_bottom_air__temperature_amplitude'' 4,
           Set_value ''snowpack__depth'' 7, Update,
           Get_value ''soil__active_layer_thickness'' 1,
           Set_value ''atmosphere_bottom_air__temperature'' 2,
           Set_value ''atmosphere_bottom_air__temperature_amplitude'' 5,
           Set_value ''snowpack__depth'' 8, Update,
           Get_value ''soil__active_layer_thickness'' 2])) \<and>
   count_list
     [Attr ''end_time'', Attr ''time'', Attr ''time_step'',
           Set_value ''atmosphere_bottom_air__temperature'' 1,
           Set_value ''atmosphere_bottom_air__temperature_amplitude'' 4,
           Set_value ''snowpack__depth'' 7, Update,
           Get_value ''soil__active_layer_thickness'' 1,
           Set_value ''atmosphere_bottom_air__temperature'' 2,
           Set_value ''atmosphere_bottom_air__temperature_amplitude'' 5,
           Set_value ''snowpack__depth'' 8, Update,
           Get_value ''soil__active_layer_thickness'' (2 :: real)] Update = 2"
  using n_steps_counting by (simp add: driver_cell_two_rows)

subsection \<open>Reads of the forcing series\<close>

lemma driver_cell_index_error:
  fixes maat :: "'f list"
  assumes "n_steps_of ops (end_time lib (fst s)) (time lib (fst s)) (time_step lib (fst s)) = Inr n"
  shows "(\<exists>s'. driver_cell ops np lib maat tamp snow_depth s = Inl (IndexError, s')) \<longleftrightarrow>
         (0 \<le> n \<and> \<not> too_large np (nat n) \<and> \<not> no_memory np (nat n) \<and>
          (\<exists>i < nat n. \<not> (i < length maat \<and> i < length tamp \<and> i < length snow_depth)))"
proof (cases "np_empty np n :: error + 'f option list")
  case (Inl e)
  have cell: "driver_cell ops np lib maat tamp snow_depth s =
      Inl (e, (fst s, snd s @ [Attr ''end_time'', Attr ''time'', Attr ''time_step'']))"
    by (simp add: driver_cell_unfold assms Inl)
  have "e \<noteq> IndexError" using np_empty_not_IndexError [of np n] Inl by auto
  moreover have "n < 0 \<or> too_large np (nat n) \<or> no_memory np (nat n)"
    using np_empty_Inl [of np n] Inl by auto
  ultimately show ?thesis
    by (auto simp add: cell)
next
  case (Inr th)
  then have ok: "0 \<le> n" "\<not> too_large np (nat n)" "\<not> no_memory np (nat n)"
    and th: "th = replicate (nat n) None"
    by (simp_all add: np_empty_Inr)
  have cell: "driver_cell ops np lib maat tamp snow_depth s =
      driver_loop lib maat tamp snow_depth [0..<nat n]
        ((fst s, snd s @ [Attr ''end_time'', Attr ''time'', Attr ''time_step'']), th)"
    by (simp add: driver_cell_unfold assms Inr)
  have "\<forall>i\<in>set [0..<nat n]. i < length th"
    by (simp add: th)
  from driver_loop_index_error [OF this, of lib maat tamp snow_depth] ok
  show ?thesis
    by (auto simp add: cell)
qed

text \<open>
  Claim C6, as amended. Iteration \<open>i\<close> of the driver loop reads row \<open>i\<close> of each
  of the three series. With \<^verbatim>\<open>n_steps\<close> as evaluated after the model of Part 4 is
  initialized, no read of the run is out of range (the notebook does not stop with
  IndexError) exactly when \<^verbatim>\<open>n_steps\<close> does not exceed the number of rows of the
  table or \<^verbatim>\<open>np.empty(n_steps)\<close> refuses the size, in which case the loop is not
  entered and nothing is read.
\<close>

theorem forcing_reads_in_bounds:
  assumes "n_steps_of ops (end_time lib (fst (part4_init lib s))) (time lib (fst (part4_init lib s)))
             (time_step lib (fst (part4_init lib s))) = Inr n"
  shows "(\<forall>s'. part4 ops np lib data s \<noteq> Inl (IndexError, s')) \<longleftrightarrow>
         (n \<le> int (length data) \<or> too_large np (nat n) \<or> no_memory np (nat n))"
proof -
  have "(\<exists>s'. part4 ops np lib data s = Inl (IndexError, s')) \<longleftrightarrow>
        (0 \<le> n \<and> \<not> too_large np (nat n) \<and> \<not> no_memory np (nat n) \<and>
         (\<exists>i < nat n. \<not> i < length data))"
    unfolding part4_def Let_def driver_cell_index_error [OF assms] by simp
  also have "(\<exists>i < nat n. \<not> i < length data) \<longleftrightarrow> length data < nat n"
    by (meson le_less_linear less_le_trans less_imp_le_nat not_less)
  finally show ?thesis by auto
qed

text \<open>
  The counting toolkit ending at time three gives \<^verbatim>\<open>n_steps = 3\<close>: a table of
  three rows is read within bounds, a table of two rows is not.
\<close>

theorem forcing_reads_in_bounds_witness:
  "n_steps_of exact_arith (end_time (counting_toolkit 3) (fst (part4_init (counting_toolkit 3) (0, []))))
              (time (counting_toolkit 3) (fst (part4_init (counting_toolkit 3) (0, []))))
              (time_step (counting_toolkit 3) (fst (part4_init (counting_toolkit 3) (0, [])))) = Inr 3 \<and>
   (\<forall>s'. part4 exact_arith numpy_64 (counting_toolkit 3) [year 1, year 2, year 3] (0, [])
           \<noteq> Inl (IndexError, s')) \<and>
   \<not> (\<forall>s'. part4 exact_arith numpy_64 (counting_toolkit 3) [year 1, year 2] (0, [])
           \<noteq> Inl (IndexError, s'))"
proof -
  have "(\<forall>s'. part4 exact_arith numpy_64 (counting_toolkit 3) [year 1, year 2, year 3] (0, [])
           \<noteq> Inl (IndexError, s'))"
    using forcing_reads_in_bounds [OF part4_init_counting, of numpy_64 "[year 1, year 2, year 3]"]
    by simp
  moreover
  have "\<not> (\<forall>s'. part4 exact_arith numpy_64 (counting_toolkit 3) [year 1, year 2] (0, [])
           \<noteq> Inl (IndexError, s'))"
    using forcing_reads_in_bounds [OF part4_init_counting, of numpy_64 "[year 1, year 2]"]
    by (simp add: numpy_64_def)
  ultimately show ?thesis
    using part4_init_counting by blast
qed

text \<open>
  Claim C6 as stated makes \<^verbatim>\<open>n_steps\<close> at most the number of rows necessary for
  the reads to be in bounds. With \<^verbatim>\<open>n_steps = 2 ^ 63\<close> and a table of two rows
  \<^verbatim>\<open>np.empty\<close> refuses the size: the cell stops with ValueError before the loop, no
  read is made, none is out of range, and \<^verbatim>\<open>n_steps\<close> exceeds the number of rows.
\<close>

theorem refused_size_counterexample:
  "n_steps_of exact_arith
     (end_time (counting_toolkit 9223372036854775808)
        (fst (part4_init (counting_toolkit 9223372036854775808) (0, []))))
     (time (counting_toolkit 9223372036854775808)
        (fst (part4_init (counting_toolkit 9223372036854775808) (0, []))))
     (time_step (counting_toolkit 9223372036854775808)
        (fst (part4_init (counting_toolkit 9223372036854775808) (0, [])))) =
     Inr 9223372036854775808 \<and>
   part4 exact_arith numpy_64 (counting_toolkit 9223372036854775808) [year 1, year 2] (0, []) =
     Inl (ValueError,
          (0, [New, Setup, Initialize, Attr ''end_time'', Attr ''time'', Attr ''time_step''])) \<and>
   \<not> (9223372036854775808 :: int) \<le> int (length [year 1, year 2])"
  by (simp add: part4_def part4_init_def driver_cell_def toolkit_calls counting_toolkit_def
      numpy_64_def np_empty_def n_steps_of_def exact_arith_def)

section \<open>The order of the calls\<close>
















end
